theory Spec2Isabelle
  imports Main "HOL-Library.AList"
begin

section \<open>Python values and exceptions\<close>

text \<open>
  The objects that flow through \<^verbatim>\<open>halfORM/field.py\<close> and
  \<^verbatim>\<open>half_orm/relation.py\<close>, by the shapes the code tells apart:
  \<^verbatim>\<open>None\<close>, the \<^verbatim>\<open>NULL\<close> singleton of the \<^verbatim>\<open>null\<close>
  module, strings, integers, lists, tuples, and a \<^verbatim>\<open>Field\<close> object used as a
  value (given by its \<^verbatim>\<open>name()\<close> and the relation it belongs to).
\<close>

datatype pyval =
    PNone
  | PNULL
  | PStr string
  | PInt int
  | PList "pyval list"
  | PTuple "pyval list"
  | PField string "nat option"

text \<open>The exceptions the modelled code raises, by their Python names.\<close>

datatype error =
    AssertionError
  | AttributeError
  | IndexError
  | KeyError
  | TypeError
  | ValueError
  | StopIteration
  | RecursionError
  | RuntimeError string
  | UnknownAttributeError "string list"
  | ExpectedOneError nat int
  | OperationalError
  | InterfaceError
  | DatabaseError string

text \<open>Decimal rendering of an integer, as \<^verbatim>\<open>str.format\<close> prints it.\<close>

definition digit :: "nat \<Rightarrow> char" where
  "digit n = ''0123456789'' ! n"

fun str_nat :: "nat \<Rightarrow> string" where
  "str_nat n = (if n < 10 then [digit n] else str_nat (n div 10) @ [digit (n mod 10)])"

declare str_nat.simps [simp del]

definition str_int :: "int \<Rightarrow> string" where
  "str_int i = (if i < 0 then ''-'' @ str_nat (nat (- i)) else str_nat (nat i))"

text \<open>
  \<^verbatim>\<open>'{}'.format(v)\<close>: the text of a string is the string itself, an integer
  prints in decimal, \<^verbatim>\<open>None\<close> prints as \<^verbatim>\<open>None\<close>. The text of the
  other objects comes from their own \<^verbatim>\<open>__str__\<close> and is left unspecified.
\<close>

fun py_str :: "pyval \<Rightarrow> string" where
  "py_str (PStr s) = s"
| "py_str (PInt i) = str_int i"
| "py_str PNone = ''None''"

text \<open>
  Truth value of an object in an \<^verbatim>\<open>if\<close>: \<^verbatim>\<open>None\<close>, zero and the empty
  string, list and tuple are false. The truth value of \<^verbatim>\<open>NULL\<close> and of a
  \<^verbatim>\<open>Field\<close> depends on classes outside the sources and is left unspecified.
\<close>

fun py_bool :: "pyval \<Rightarrow> bool" where
  "py_bool PNone = False"
| "py_bool (PInt n) = (n \<noteq> 0)"
| "py_bool (PStr s) = (s \<noteq> [])"
| "py_bool (PList xs) = (xs \<noteq> [])"
| "py_bool (PTuple xs) = (xs \<noteq> [])"

definition dq :: string where
  "dq = [CHR 0x22]"

section \<open>The Field class of halfORM/field.py\<close>

text \<open>
  A \<^verbatim>\<open>Field\<close> object: its name, the \<^verbatim>\<open>fieldtype\<close> entry of its
  metadata, and the attributes \<^verbatim>\<open>__relation\<close>, \<^verbatim>\<open>__value\<close>,
  \<^verbatim>\<open>__unaccent\<close>, \<^verbatim>\<open>__comp\<close> and \<^verbatim>\<open>_is_set\<close>. The
  comparator is whatever object was stored: \<^verbatim>\<open>__set__\<close> checks no type.
  Relations are referred to by their object identity.
\<close>

record field =
  f_name :: string
  f_type :: string
  f_relation :: "nat option"
  f_value :: pyval
  f_unaccent :: bool
  f_comp :: pyval
  f_is_set :: bool

text \<open>\<^verbatim>\<open>Field.__init__\<close>: no relation, no value, comparator \<^verbatim>\<open>=\<close>.\<close>

definition Field_init :: "string \<Rightarrow> string \<Rightarrow> field" where
  "Field_init nm ty =
     \<lparr>f_name = nm, f_type = ty, f_relation = None, f_value = PNone,
      f_unaccent = False, f_comp = PStr ''='', f_is_set = False\<rparr>"

text \<open>
  \<^verbatim>\<open>Field._praf(query, id_)\<close>: the column prefixed with the relation alias
  \<^verbatim>\<open>r<id>\<close> in a select, the column name between double quotes otherwise.
\<close>

definition praf :: "field \<Rightarrow> string \<Rightarrow> pyval \<Rightarrow> string" where
  "praf self query ident =
     (let alias = ''r'' @ py_str ident
      in if query = ''select'' then alias @ ''.'' @ f_name self
         else dq @ f_name self @ dq)"

definition is_list_or_tuple :: "pyval \<Rightarrow> bool" where
  "is_list_or_tuple v = (case v of PList _ \<Rightarrow> True | PTuple _ \<Rightarrow> True | _ \<Rightarrow> False)"

text \<open>
  The placeholder chosen by \<^verbatim>\<open>Field.where_repr\<close>: \<^verbatim>\<open>any(%s)\<close> for a
  list or tuple value on a column whose type name does not start with an underscore
  (not an array type), \<^verbatim>\<open>%s\<close> otherwise. \<^verbatim>\<open>self.type_[0]\<close> raises
  \<^verbatim>\<open>IndexError\<close> on an empty type name. The comparator plays no part.
\<close>

definition comp_str :: "field \<Rightarrow> error + string" where
  "comp_str self =
     (if is_list_or_tuple (f_value self) then
        (case f_type self of
           [] \<Rightarrow> Inl IndexError
         | c # _ \<Rightarrow> if c \<noteq> CHR ''_'' then Inr ''any(%s)'' else Inr ''%s'')
      else Inr ''%s'')"

text \<open>\<^verbatim>\<open>Field.where_repr(query, id_)\<close>.\<close>

definition where_repr :: "field \<Rightarrow> string \<Rightarrow> pyval \<Rightarrow> error + string" where
  "where_repr self query ident =
     (case comp_str self of
        Inl e \<Rightarrow> Inl e
      | Inr cs \<Rightarrow>
          if \<not> f_unaccent self then
            Inr (praf self query ident @ '' '' @ py_str (f_comp self) @ '' '' @ cs)
          else
            Inr (''unaccent('' @ praf self query ident @ '') '' @ py_str (f_comp self)
                 @ '' unaccent('' @ cs @ '')''))"

text \<open>
  What \<^verbatim>\<open>Field.__set__\<close> does to the other objects when the assigned value is
  itself a \<^verbatim>\<open>Field\<close>: it sets \<^verbatim>\<open>from_\<close> (here
  \<open>link_from\<close>), \<^verbatim>\<open>to_\<close> (here \<open>link_to\<close>),
  \<^verbatim>\<open>fields\<close> and \<^verbatim>\<open>fk_names\<close> on that field and inserts the pair
  \<^verbatim>\<open>(from_, value)\<close> at the head of \<^verbatim>\<open>to_._joined_to\<close>.
\<close>

record join_link =
  link_from :: "nat option"
  link_to :: nat
  link_fields :: "string list"
  fk_names :: "string list"

text \<open>
  The tuple unpacking of \<^verbatim>\<open>__set__\<close>: a tuple must have two components
  (\<^verbatim>\<open>assert len(value) == 2\<close>) and is read as \<^verbatim>\<open>value, comp = value\<close>;
  any other object is the value, with \<^verbatim>\<open>comp = None\<close>.
\<close>

definition unpack :: "pyval \<Rightarrow> error + pyval \<times> pyval" where
  "unpack v =
     (case v of
        PTuple xs \<Rightarrow>
          (case xs of [a, b] \<Rightarrow> Inr (a, b) | _ \<Rightarrow> Inl AssertionError)
      | _ \<Rightarrow> Inr (v, PNone))"

definition is_field :: "pyval \<Rightarrow> bool" where
  "is_field v = (case v of PField _ _ \<Rightarrow> True | _ \<Rightarrow> False)"

text \<open>The last three statements of \<^verbatim>\<open>__set__\<close>.\<close>

definition store_value :: "field \<Rightarrow> bool \<Rightarrow> pyval \<Rightarrow> pyval \<Rightarrow> field" where
  "store_value self isf v c =
     self\<lparr>f_value := v, f_comp := c, f_is_set := (if \<not> isf then True else f_is_set self)\<rparr>"

text \<open>
  \<^verbatim>\<open>Field.__set__(obj, value)\<close>, with assertions enabled. \<^verbatim>\<open>None\<close>
  returns at once, before anything is written. Otherwise the relation is recorded, a
  tuple is unpacked, \<^verbatim>\<open>NULL\<close> gets the comparator \<^verbatim>\<open>is\<close> when none was
  given and must come with \<^verbatim>\<open>is\<close> or \<^verbatim>\<open>is not\<close>, a missing
  comparator becomes \<^verbatim>\<open>=\<close> (or \<^verbatim>\<open>in\<close>, with a join, for a field),
  and a comparator that was given is stored as it is. The result is the field after the
  call and the join it registered, if any. On an exception the only attribute already
  written is \<^verbatim>\<open>__relation\<close>.
\<close>

definition Field_set :: "field \<Rightarrow> nat option \<Rightarrow> pyval \<Rightarrow> error + field \<times> join_link option" where
  "Field_set self obj v0 =
     (if v0 = PNone then Inr (self, None)
      else
        let self1 = self\<lparr>f_relation := obj\<rparr>; isf = is_field v0
        in case unpack v0 of
             Inl e \<Rightarrow> Inl e
           | Inr (v, c0) \<Rightarrow>
               let c1 = (if v = PNULL \<and> c0 = PNone then PStr ''is'' else c0)
               in if v = PNULL then
                    (if c1 = PStr ''is'' \<or> c1 = PStr ''is not''
                     then Inr (store_value self1 isf v c1, None)
                     else Inl AssertionError)
                  else if c1 = PNone then
                    (if \<not> isf then Inr (store_value self1 isf v (PStr ''=''), None)
                     else
                       (case (v, obj) of
                          (PField nm rel, Some t) \<Rightarrow>
                            Inr (store_value self1 isf v (PStr ''in''),
                                 Some \<lparr>link_from = rel, link_to = t, link_fields = [nm],
                                       fk_names = [f_name self]\<rparr>)
                        | _ \<Rightarrow> Inl AttributeError))
                  else Inr (store_value self1 isf v c1, None))"

text \<open>\<^verbatim>\<open>Field._set_value(value)\<close>: \<^verbatim>\<open>__set__\<close> on the field's own relation.\<close>

definition Field_set_value :: "field \<Rightarrow> pyval \<Rightarrow> error + field \<times> join_link option" where
  "Field_set_value self v = Field_set self (f_relation self) v"

text \<open>
  The comparator set as the specification lists it; the code of
  \<^verbatim>\<open>halfORM/field.py\<close> contains no such list.
\<close>

definition spec_comparators :: "string list" where
  "spec_comparators =
     [''='', ''!='', ''<'', ''<='', ''>'', ''>='', ''like'', ''ilike'', ''@@'', ''%'',
      ''is'', ''is not'', ''in'', ''any'']"

text \<open>Two fields used in the examples below.\<close>

definition first_name :: field where
  "first_name = Field_init ''first_name'' ''text''"

definition jojo :: field where
  "jojo = first_name\<lparr>f_relation := Some 1, f_value := PStr ''jojo'', f_is_set := True\<rparr>"

definition content :: field where
  "content = (Field_init ''content'' ''text'')
       \<lparr>f_relation := Some 1, f_value := PList [PStr ''bonjour'', PStr ''au revoir''],
        f_comp := PStr ''!='', f_is_set := True\<rparr>"

section \<open>Relations of half_orm/relation.py\<close>

text \<open>
  \<^verbatim>\<open>relation.py\<close> uses the \<^verbatim>\<open>Field\<close> class of
  \<^verbatim>\<open>half_orm.field\<close> and the \<^verbatim>\<open>FKey\<close> class of
  \<^verbatim>\<open>half_orm.fkey\<close>; neither module is among the sources. A field of a
  relation is given by the attributes above (\<^verbatim>\<open>is_set()\<close> reads
  \<open>f_is_set\<close>, \<^verbatim>\<open>value\<close> reads \<open>f_value\<close>); its methods
  \<^verbatim>\<open>_set\<close> and \<^verbatim>\<open>_comp\<close> are parameters of the model, and
  what \<^verbatim>\<open>_set\<close> does to objects other than its field is not modelled.
\<close>

record field_ops =
  op_set :: "field \<Rightarrow> pyval \<Rightarrow> error + field"
  op_comp :: "field \<Rightarrow> pyval"

text \<open>
  What \<^verbatim>\<open>relation.py\<close> reads of a foreign key:
  \<^verbatim>\<open>_fkey_prep_select()\<close> (\<^verbatim>\<open>None\<close>, or a tuple whose first
  component is a list of column names) and \<^verbatim>\<open>values()[0]\<close>.
\<close>

record fkey =
  fk_prep_select :: "string list option"
  fk_values :: "pyval list"

type_synonym row = "(string \<times> pyval) list"

text \<open>
  A relation class, with the metadata of its model loaded: its name, its
  \<^verbatim>\<open>_qrn\<close>, and the fields and foreign keys \<^verbatim>\<open>__set_fields\<close> and
  \<^verbatim>\<open>__set_fkeys\<close> give to a fresh instance.
\<close>

record rel_class =
  c_name :: string
  c_qrn :: string
  c_fields :: "(string \<times> field) list"
  c_fkeys :: "(string \<times> fkey) list"

text \<open>\<^verbatim>\<open>_SetOperators\<close>: the left relation, the operator, the right relation.\<close>

record set_operators =
  so_left :: nat
  so_operator :: "string option"
  so_right :: "nat option"

text \<open>
  A \<^verbatim>\<open>Relation\<close> object. Dictionaries are association lists in insertion
  order; \<^verbatim>\<open>_ho_join_to\<close> maps a foreign key (its object identity) to a
  relation (its object identity). The scratch attributes of the SQL synthesis
  (\<^verbatim>\<open>__query\<close>, \<^verbatim>\<open>__query_type\<close>, \<^verbatim>\<open>__sql_query\<close>,
  \<^verbatim>\<open>__sql_values\<close>, \<^verbatim>\<open>__cursor\<close>) are left out.
\<close>

record relation =
  r_class :: rel_class
  ho_fields :: "(string \<times> field) list"
  ho_fkeys :: "(string \<times> fkey) list"
  ho_join_to :: "(nat \<times> nat) list"
  ho_is_singleton :: bool
  r_only :: bool
  r_neg :: bool
  r_set_operators :: set_operators
  r_select_params :: "string \<rightharpoonup> pyval"
  r_id_cast :: "nat option"
  r_mogrify :: bool

text \<open>
  The objects: every identity denotes a relation, and \<open>next_id\<close> is the identity
  the next new object gets. Each relation owns its \<^verbatim>\<open>_ho_join_to\<close>
  dictionary (\<^verbatim>\<open>_ho_cast\<close>, which shares it between two relations, is not
  modelled).
\<close>

record heap =
  rels :: "nat \<Rightarrow> relation"
  next_id :: nat

definition upd_rel :: "nat \<Rightarrow> (relation \<Rightarrow> relation) \<Rightarrow> heap \<Rightarrow> heap" where
  "upd_rel i f h = h\<lparr>rels := (rels h)(i := f (rels h i))\<rparr>"

subsection \<open>Construction\<close>

text \<open>The attributes \<^verbatim>\<open>__init__\<close> gives to the new object \<open>i\<close>.\<close>

definition new_relation :: "rel_class \<Rightarrow> nat \<Rightarrow> relation" where
  "new_relation c i =
     \<lparr>r_class = c, ho_fields = c_fields c, ho_fkeys = c_fkeys c, ho_join_to = [],
      ho_is_singleton = False, r_only = False, r_neg = False,
      r_set_operators = \<lparr>so_left = i, so_operator = None, so_right = None\<rparr>,
      r_select_params = Map.empty, r_id_cast = None, r_mogrify = False\<rparr>"

text \<open>
  The comprehension of \<^verbatim>\<open>__init__\<close>:
  \<^verbatim>\<open>field._set(value)\<close> for every keyword whose value is not \<^verbatim>\<open>None\<close>.
\<close>

fun set_kwargs :: "field_ops \<Rightarrow> (string \<times> field) list \<Rightarrow> (string \<times> pyval) list
    \<Rightarrow> error + (string \<times> field) list" where
  "set_kwargs ops fs [] = Inr fs"
| "set_kwargs ops fs ((k, v) # kw) =
     (if v = PNone then set_kwargs ops fs kw
      else
        (case map_of fs k of
           None \<Rightarrow> Inl KeyError
         | Some f \<Rightarrow>
             (case op_set ops f v of
                Inl e \<Rightarrow> Inl e
              | Inr f' \<Rightarrow> set_kwargs ops (AList.update k f' fs) kw)))"

text \<open>
  \<^verbatim>\<open>Relation.__init__(**kwargs)\<close> for the class \<open>c\<close>: a keyword that names no
  column raises \<^verbatim>\<open>UnknownAttributeError\<close>; otherwise the new object is
  returned with the heap that holds it.
\<close>

definition Relation_init :: "field_ops \<Rightarrow> rel_class \<Rightarrow> (string \<times> pyval) list \<Rightarrow> heap
    \<Rightarrow> error + nat \<times> heap" where
  "Relation_init ops c kwargs h =
     (let unknown = filter (\<lambda>k. k \<notin> set (map fst (c_fields c))) (map fst kwargs)
      in if unknown \<noteq> [] then Inl (UnknownAttributeError unknown)
         else
           (case set_kwargs ops (c_fields c) kwargs of
              Inl e \<Rightarrow> Inl e
            | Inr fs \<Rightarrow>
                let i = next_id h
                in Inr (i, \<lparr>rels = (rels h)(i := (new_relation c i)\<lparr>ho_fields := fs\<rparr>),
                           next_id = Suc i\<rparr>)))"

subsection \<open>The executor\<close>

text \<open>
  The statements a relation sends, by template. The text of the FROM chain and of the
  WHERE clause is rendered through \<^verbatim>\<open>FKey._join_query\<close> and
  \<^verbatim>\<open>Field._where_repr\<close>, outside the sources; a statement names the relation
  whose constraint it renders instead.
  \<^item> \<open>Count_stmt i l\<close>: \<^verbatim>\<open>select count(distinct r.*) from ... where ...\<close>,
    followed by \<^verbatim>\<open>limit 1\<close> when \<open>l\<close> holds;
  \<^item> \<open>Select_stmt i cols distinct order_by limit offset\<close>: the select of
    \<^verbatim>\<open>_ho_prep_select\<close>, with the entries of \<^verbatim>\<open>__select_params\<close>;
  \<^item> \<open>Insert_stmt qrn columns placeholders returning values\<close>;
  \<^item> \<open>Update_stmt i columns new_values fk_fields fk_values returning\<close>;
  \<^item> \<open>Delete_stmt i fk_fields fk_values returning\<close>.
\<close>

datatype statement =
    Count_stmt nat bool
  | Select_stmt nat "string list" "pyval option" "pyval option" "pyval option" "pyval option"
  | Insert_stmt string "string list" "string list" "string list" "pyval list"
  | Update_stmt nat "string list" "pyval list" "string list" "pyval list" "string list"
  | Delete_stmt nat "string list" "pyval list" "string list"

text \<open>
  The database server behind the cursor: from its state and a statement, the result set
  or the exception of the driver, and its next state. The world is the server's state and
  the statements sent so far.
\<close>

type_synonym 'db server = "'db \<Rightarrow> statement \<Rightarrow> (error + row list) \<times> 'db"

record 'db world =
  db :: 'db
  sent :: "statement list"

text \<open>
  \<^verbatim>\<open>__execute\<close>: on \<^verbatim>\<open>OperationalError\<close> or
  \<^verbatim>\<open>InterfaceError\<close> the model is pinged, a new cursor is taken and the
  statement is sent once more; any other exception, and an exception of the second
  attempt, goes to the caller. The result is the result set left in the cursor.
\<close>

definition execute :: "'db server \<Rightarrow> statement \<Rightarrow> 'db world \<Rightarrow> (error + row list) \<times> 'db world" where
  "execute srv st w =
     (case srv (db w) st of
        (Inl e, d) \<Rightarrow>
          if e = OperationalError \<or> e = InterfaceError then
            (case srv d st of (res, d') \<Rightarrow> (res, \<lparr>db = d', sent = sent w @ [st, st]\<rparr>))
          else (Inl e, \<lparr>db = d, sent = sent w @ [st]\<rparr>)
      | (Inr rows, d) \<Rightarrow> (Inr rows, \<lparr>db = d, sent = sent w @ [st]\<rparr>))"

subsection \<open>Counting\<close>

text \<open>\<^verbatim>\<open>cursor.fetchone()['count']\<close>.\<close>

definition fetchone_count :: "row list \<Rightarrow> error + pyval" where
  "fetchone_count rows =
     (case rows of
        [] \<Rightarrow> Inl TypeError
      | r # _ \<Rightarrow> (case map_of r ''count'' of None \<Rightarrow> Inl KeyError | Some v \<Rightarrow> Inr v))"

text \<open>
  \<^verbatim>\<open>len(self)\<close>: \<^verbatim>\<open>__len__\<close> sends the count and returns the
  \<^verbatim>\<open>count\<close> column of the first row; \<^verbatim>\<open>len\<close> accepts a non-negative
  integer only.
\<close>

definition Relation_len :: "'db server \<Rightarrow> nat \<Rightarrow> 'db world \<Rightarrow> (error + int) \<times> 'db world" where
  "Relation_len srv i w =
     (case execute srv (Count_stmt i False) w of
        (Inl e, w') \<Rightarrow> (Inl e, w')
      | (Inr rows, w') \<Rightarrow>
          (case fetchone_count rows of
             Inl e \<Rightarrow> (Inl e, w')
           | Inr v \<Rightarrow>
               (case v of
                  PInt n \<Rightarrow> if n < 0 then (Inl ValueError, w') else (Inr n, w')
                | _ \<Rightarrow> (Inl TypeError, w'))))"

text \<open>
  \<^verbatim>\<open>_ho_is_empty\<close>: the same statement followed by \<^verbatim>\<open>limit 1\<close>; the
  result is \<^verbatim>\<open>count != 1\<close>.
\<close>

definition ho_is_empty :: "'db server \<Rightarrow> nat \<Rightarrow> 'db world \<Rightarrow> (error + bool) \<times> 'db world" where
  "ho_is_empty srv i w =
     (case execute srv (Count_stmt i True) w of
        (Inl e, w') \<Rightarrow> (Inl e, w')
      | (Inr rows, w') \<Rightarrow>
          (case fetchone_count rows of
             Inl e \<Rightarrow> (Inl e, w')
           | Inr v \<Rightarrow> (Inr (v \<noteq> PInt 1), w')))"

subsection \<open>Selection modifiers, select and get\<close>

text \<open>
  \<^verbatim>\<open>_ho_limit\<close>: a true value is stored under \<^verbatim>\<open>limit\<close>; a false one
  removes the entry if there is one. \<^verbatim>\<open>_ho_offset\<close>,
  \<^verbatim>\<open>_ho_order_by\<close> and \<^verbatim>\<open>_ho_distinct\<close> store their entry. Each
  returns \<^verbatim>\<open>self\<close>.
\<close>

definition ho_limit :: "pyval \<Rightarrow> nat \<Rightarrow> heap \<Rightarrow> nat \<times> heap" where
  "ho_limit lim i h =
     (let sp = r_select_params (rels h i);
          sp' = (if py_bool lim then sp(''limit'' \<mapsto> lim)
                 else if ''limit'' \<in> dom sp then sp(''limit'' := None)
                 else sp)
      in (i, upd_rel i (\<lambda>r. r\<lparr>r_select_params := sp'\<rparr>) h))"

definition ho_offset :: "pyval \<Rightarrow> nat \<Rightarrow> heap \<Rightarrow> nat \<times> heap" where
  "ho_offset off i h =
     (i, upd_rel i (\<lambda>r. r\<lparr>r_select_params := (r_select_params r)(''offset'' \<mapsto> off)\<rparr>) h)"

definition ho_order_by :: "pyval \<Rightarrow> nat \<Rightarrow> heap \<Rightarrow> nat \<times> heap" where
  "ho_order_by ord i h =
     (i, upd_rel i (\<lambda>r. r\<lparr>r_select_params := (r_select_params r)(''order_by'' \<mapsto> ord)\<rparr>) h)"

definition ho_distinct :: "nat \<Rightarrow> heap \<Rightarrow> nat \<times> heap" where
  "ho_distinct i h =
     (i, upd_rel i (\<lambda>r. r\<lparr>r_select_params :=
                             (r_select_params r)(''distinct'' \<mapsto> PStr ''distinct'')\<rparr>) h)"

text \<open>The statement of \<^verbatim>\<open>_ho_prep_select(*args)\<close>.\<close>

definition select_stmt :: "relation \<Rightarrow> nat \<Rightarrow> string list \<Rightarrow> statement" where
  "select_stmt r i cols =
     (let sp = r_select_params r
      in Select_stmt i cols (sp ''distinct'') (sp ''order_by'') (sp ''limit'') (sp ''offset''))"

text \<open>\<^verbatim>\<open>_ho_select(*args)\<close>, run to the end: the rows the generator yields.\<close>

definition ho_select :: "'db server \<Rightarrow> nat \<Rightarrow> string list \<Rightarrow> heap \<Rightarrow> 'db world
    \<Rightarrow> (error + row list) \<times> 'db world" where
  "ho_select srv i cols h w = execute srv (select_stmt (rels h i) i cols) w"

text \<open>
  \<^verbatim>\<open>_ho_get(*args)\<close>: the count must be 1, else
  \<^verbatim>\<open>ExpectedOneError(self, count)\<close>; then \<^verbatim>\<open>next\<close> takes the first row
  of the select (\<^verbatim>\<open>StopIteration\<close> when there is none) and a new relation of the
  same class is built from it; both relations are marked singleton.
\<close>

definition ho_get :: "field_ops \<Rightarrow> 'db server \<Rightarrow> nat \<Rightarrow> string list \<Rightarrow> heap \<Rightarrow> 'db world
    \<Rightarrow> (error + nat) \<times> heap \<times> 'db world" where
  "ho_get ops srv i args h w =
     (case Relation_len srv i w of
        (Inl e, w1) \<Rightarrow> (Inl e, h, w1)
      | (Inr cnt, w1) \<Rightarrow>
          if cnt \<noteq> 1 then (Inl (ExpectedOneError i cnt), h, w1)
          else
            let h1 = upd_rel i (\<lambda>r. r\<lparr>ho_is_singleton := True\<rparr>) h
            in (case ho_select srv i args h1 w1 of
                  (Inl e, w2) \<Rightarrow> (Inl e, h1, w2)
                | (Inr rows, w2) \<Rightarrow>
                    (case rows of
                       [] \<Rightarrow> (Inl StopIteration, h1, w2)
                     | row # _ \<Rightarrow>
                         (case Relation_init ops (r_class (rels h1 i)) row h1 of
                            Inl e \<Rightarrow> (Inl e, h1, w2)
                          | Inr (j, h2) \<Rightarrow>
                              (Inr j, upd_rel j (\<lambda>r. r\<lparr>ho_is_singleton := True\<rparr>) h2, w2)))))"

text \<open>
  The message of \<^verbatim>\<open>ExpectedOneError(relation, count)\<close>, for the text
  \<open>rel\<close> that the relation prints as.
\<close>

definition ExpectedOneError_message :: "int \<Rightarrow> string \<Rightarrow> string" where
  "ExpectedOneError_message cnt rel =
     ''Expected 1, got '' @ str_int cnt @ '' tuple'' @ (if cnt = 0 then [] else ''s'')
     @ '':'' @ [CHR 0x0A] @ rel"

subsection \<open>Is the relation constrained?\<close>

text \<open>The loop \<^verbatim>\<open>joined_to |= jt_._ho_is_set()\<close> over the results of the calls.\<close>

fun or_results :: "(error + bool) list \<Rightarrow> bool \<Rightarrow> error + bool" where
  "or_results [] acc = Inr acc"
| "or_results (Inl e # rs) acc = Inl e"
| "or_results (Inr b # rs) acc = or_results rs (acc \<or> b)"

text \<open>\<^verbatim>\<open>bool(operator)\<close> for an operator that is \<^verbatim>\<open>None\<close> or a string.\<close>

definition op_truth :: "string option \<Rightarrow> bool" where
  "op_truth operator = (case operator of None \<Rightarrow> False | Some s \<Rightarrow> s \<noteq> [])"

text \<open>\<^verbatim>\<open>__get_set_fields\<close>, with the names of the fields.\<close>

definition get_set_fields :: "relation \<Rightarrow> (string \<times> field) list" where
  "get_set_fields r = filter (\<lambda>(k, f). f_is_set f) (ho_fields r)"

text \<open>
  \<^verbatim>\<open>_ho_is_set\<close>. The method calls itself on every relation of
  \<^verbatim>\<open>_ho_join_to\<close> before it looks at the relation's own operator, negation and
  fields, and nothing stops it on a cycle of joins: the first argument is the depth of
  recursion the interpreter still allows, and \<^verbatim>\<open>RecursionError\<close> is raised
  when it is used up.
\<close>

fun ho_is_set :: "nat \<Rightarrow> heap \<Rightarrow> nat \<Rightarrow> error + bool" where
  "ho_is_set 0 h i = Inl RecursionError"
| "ho_is_set (Suc depth) h i =
     (let r = rels h i
      in case or_results (map (\<lambda>(fk, j). ho_is_set depth h j) (ho_join_to r)) False of
           Inl e \<Rightarrow> Inl e
         | Inr joined_to \<Rightarrow>
             Inr (joined_to \<or> op_truth (so_operator (r_set_operators r)) \<or> r_neg r
                  \<or> get_set_fields r \<noteq> []))"

subsection \<open>Insert, update, delete\<close>

text \<open>
  One step of the loop of \<^verbatim>\<open>__what\<close> over the foreign keys, on
  \<^verbatim>\<open>(fk_fields, fk_queries, fk_values)\<close>.
\<close>

definition what_step :: "fkey \<Rightarrow> string list \<times> string list \<times> pyval list
    \<Rightarrow> string list \<times> string list \<times> pyval list" where
  "what_step fk acc =
     (case acc of
        (fk_fields, fk_queries, fk_vals) \<Rightarrow>
          (case fk_prep_select fk of
             None \<Rightarrow> acc
           | Some names \<Rightarrow>
               let vals = fk_vals @ fk_values fk
               in (fk_fields @ names, replicate (length vals) ''%s'', vals)))"

text \<open>
  \<^verbatim>\<open>__what\<close>: the quoted names of the set fields, the set fields, and the
  columns, placeholders and values of the constrained foreign keys.
\<close>

definition Relation_what :: "relation
    \<Rightarrow> string list \<times> field list \<times> string list \<times> string list \<times> pyval list" where
  "Relation_what r =
     (let set_fields = map snd (get_set_fields r);
          fields_names = map (\<lambda>(k, f). dq @ k @ dq) (get_set_fields r)
      in case fold what_step (map snd (ho_fkeys r)) ([], [], []) of
           (fk_fields, fk_queries, fk_vals) \<Rightarrow>
             (fields_names, set_fields, fk_fields, fk_queries, fk_vals))"

text \<open>The statement of \<^verbatim>\<open>_ho_insert(*args)\<close>.\<close>

definition insert_stmt :: "relation \<Rightarrow> string list \<Rightarrow> statement" where
  "insert_stmt r args =
     (case Relation_what r of
        (fields_names, set_fields, fk_fields, fk_query, fk_vals) \<Rightarrow>
          let what_to_insert = map (\<lambda>f. ''%s'') set_fields;
              vals = map f_value set_fields;
              returning = (if args \<noteq> [] then args else [''*''])
          in if fk_fields \<noteq> [] then
               Insert_stmt (c_qrn (r_class r)) (fields_names @ fk_fields)
                 (what_to_insert @ fk_query) returning (vals @ fk_vals)
             else
               Insert_stmt (c_qrn (r_class r)) fields_names what_to_insert returning vals)"

text \<open>
  \<^verbatim>\<open>_ho_insert(*args)\<close>: the statement is executed and the result is
  \<^verbatim>\<open>res[0]\<close> for
  \<^verbatim>\<open>res = [dict(elt) for elt in self.__cursor.fetchall()] or [{}]\<close>.
\<close>

definition ho_insert :: "'db server \<Rightarrow> nat \<Rightarrow> string list \<Rightarrow> heap \<Rightarrow> 'db world
    \<Rightarrow> (error + row) \<times> 'db world" where
  "ho_insert srv i args h w =
     (case execute srv (insert_stmt (rels h i) args) w of
        (Inl e, w') \<Rightarrow> (Inl e, w')
      | (Inr rows, w') \<Rightarrow> (Inr (case rows of [] \<Rightarrow> [] | r # _ \<Rightarrow> r), w'))"

text \<open>The messages of the two refusals.\<close>

definition update_refusal :: "string \<Rightarrow> string" where
  "update_refusal cname =
     ''Attempt to update all rows of '' @ cname @ '' without update_all being set to True!''"

definition delete_refusal :: "string \<Rightarrow> string" where
  "delete_refusal cname =
     ''Attempt to delete all rows from '' @ cname @ '' without delete_all being set to True!''"

text \<open>
  The loop after the update,
  \<^verbatim>\<open>self._ho_fields[field_name]._set(value)\<close> for every update value: the
  exception that stopped it, if any, and the fields as they are then.
\<close>

fun set_each :: "field_ops \<Rightarrow> (string \<times> field) list \<Rightarrow> (string \<times> pyval) list
    \<Rightarrow> error option \<times> (string \<times> field) list" where
  "set_each ops fs [] = (None, fs)"
| "set_each ops fs ((k, v) # kw) =
     (case map_of fs k of
        None \<Rightarrow> (Some KeyError, fs)
      | Some f \<Rightarrow>
          (case op_set ops f v of
             Inl e \<Rightarrow> (Some e, fs)
           | Inr f' \<Rightarrow> set_each ops (AList.update k f' fs) kw))"

text \<open>The statement of \<^verbatim>\<open>_ho_update\<close> for the update values that are kept.\<close>

definition update_stmt :: "relation \<Rightarrow> nat \<Rightarrow> string list \<Rightarrow> (string \<times> pyval) list \<Rightarrow> statement" where
  "update_stmt r i args update_args =
     (case Relation_what r of
        (fields_names, set_fields, fk_fields, fk_query, fk_vals) \<Rightarrow>
          Update_stmt i (map fst update_args) (map snd update_args) fk_fields fk_vals args)"

text \<open>
  \<^verbatim>\<open>_ho_update\<close> after its first test: the keys whose value is
  \<^verbatim>\<open>None\<close> are removed; with nothing left the method returns
  \<^verbatim>\<open>None\<close>; otherwise the statement is executed, the fields are set to the new
  values, and the rows are returned when a returning list was given.
\<close>

definition update_body :: "field_ops \<Rightarrow> 'db server \<Rightarrow> nat \<Rightarrow> string list \<Rightarrow> (string \<times> pyval) list
    \<Rightarrow> heap \<Rightarrow> 'db world \<Rightarrow> (error + row list option) \<times> heap \<times> 'db world" where
  "update_body ops srv i args kwargs h w =
     (let update_args = filter (\<lambda>(k, v). v \<noteq> PNone) kwargs
      in if update_args = [] then (Inr None, h, w)
         else
           (case execute srv (update_stmt (rels h i) i args update_args) w of
              (Inl e, w') \<Rightarrow> (Inl e, h, w')
            | (Inr rows, w') \<Rightarrow>
                (case set_each ops (ho_fields (rels h i)) update_args of
                   (Some e, fs) \<Rightarrow> (Inl e, upd_rel i (\<lambda>r. r\<lparr>ho_fields := fs\<rparr>) h, w')
                 | (None, fs) \<Rightarrow>
                     (Inr (if args \<noteq> [] then Some rows else None),
                      upd_rel i (\<lambda>r. r\<lparr>ho_fields := fs\<rparr>) h, w'))))"

text \<open>
  \<^verbatim>\<open>_ho_update(*args, update_all=False, **kwargs)\<close>: refused with a
  \<^verbatim>\<open>RuntimeError\<close> unless the relation is set or \<^verbatim>\<open>update_all\<close> is
  true.
\<close>

definition ho_update :: "field_ops \<Rightarrow> 'db server \<Rightarrow> nat \<Rightarrow> nat \<Rightarrow> string list \<Rightarrow> bool
    \<Rightarrow> (string \<times> pyval) list \<Rightarrow> heap \<Rightarrow> 'db world
    \<Rightarrow> (error + row list option) \<times> heap \<times> 'db world" where
  "ho_update ops srv depth i args update_all kwargs h w =
     (case ho_is_set depth h i of
        Inl e \<Rightarrow> (Inl e, h, w)
      | Inr s \<Rightarrow>
          if \<not> (s \<or> update_all) then
            (Inl (RuntimeError (update_refusal (c_name (r_class (rels h i))))), h, w)
          else update_body ops srv i args kwargs h w)"

text \<open>The statement of \<^verbatim>\<open>_ho_delete\<close>.\<close>

definition delete_stmt :: "relation \<Rightarrow> nat \<Rightarrow> string list \<Rightarrow> statement" where
  "delete_stmt r i args =
     (case Relation_what r of
        (fields_names, set_fields, fk_fields, fk_query, fk_vals) \<Rightarrow>
          Delete_stmt i fk_fields fk_vals args)"

text \<open>\<^verbatim>\<open>_ho_delete\<close> after its first test.\<close>

definition delete_body :: "'db server \<Rightarrow> nat \<Rightarrow> string list \<Rightarrow> heap \<Rightarrow> 'db world
    \<Rightarrow> (error + row list option) \<times> 'db world" where
  "delete_body srv i args h w =
     (case execute srv (delete_stmt (rels h i) i args) w of
        (Inl e, w') \<Rightarrow> (Inl e, w')
      | (Inr rows, w') \<Rightarrow> (Inr (if args \<noteq> [] then Some rows else None), w'))"

text \<open>
  \<^verbatim>\<open>_ho_delete(*args, delete_all=False)\<close>: refused with a
  \<^verbatim>\<open>RuntimeError\<close> unless the relation is set or \<^verbatim>\<open>delete_all\<close> is
  true.
\<close>

definition ho_delete :: "'db server \<Rightarrow> nat \<Rightarrow> nat \<Rightarrow> string list \<Rightarrow> bool \<Rightarrow> heap \<Rightarrow> 'db world
    \<Rightarrow> (error + row list option) \<times> 'db world" where
  "ho_delete srv depth i args delete_all h w =
     (case ho_is_set depth h i of
        Inl e \<Rightarrow> (Inl e, w)
      | Inr s \<Rightarrow>
          if \<not> (s \<or> delete_all) then
            (Inl (RuntimeError (delete_refusal (c_name (r_class (rels h i))))), w)
          else delete_body srv i args h w)"

subsection \<open>Set operators\<close>

text \<open>
  \<^verbatim>\<open>__to_dict_val_comp\<close>: for every set field, the pair of its comparator and
  its value.
\<close>

definition to_dict_val_comp :: "field_ops \<Rightarrow> relation \<Rightarrow> (string \<times> pyval) list" where
  "to_dict_val_comp ops r =
     map (\<lambda>(k, f). (k, PTuple [op_comp ops f, f_value f])) (get_set_fields r)"

text \<open>\<^verbatim>\<open>d.update(other)\<close> on dictionaries.\<close>

definition dict_update :: "('k \<times> 'v) list \<Rightarrow> ('k \<times> 'v) list \<Rightarrow> ('k \<times> 'v) list" where
  "dict_update d other = fold (\<lambda>(k, v) acc. AList.update k v acc) other d"

text \<open>
  \<^verbatim>\<open>check_fk(new, jt_list)\<close>: every entry of \<open>jt_list\<close> is written into the
  \<^verbatim>\<open>_ho_join_to\<close> of the new relation, with the new relation in place of
  \<^verbatim>\<open>self\<close>.
\<close>

definition check_fk :: "nat \<Rightarrow> nat \<Rightarrow> (nat \<times> nat) list \<Rightarrow> (nat \<times> nat) list \<Rightarrow> (nat \<times> nat) list" where
  "check_fk self new jt_list jt =
     fold (\<lambda>(fk, rel) acc. AList.update fk (if rel = self then new else rel) acc) jt_list jt"

text \<open>
  \<^verbatim>\<open>__set__op__(operator, right)\<close>. The new relation is built from the set
  fields of \<^verbatim>\<open>self\<close>; its operator node is filled when the operator is true;
  \<^verbatim>\<open>dct_join\<close> is the \<^verbatim>\<open>_ho_join_to\<close> dictionary of
  \<^verbatim>\<open>self\<close> itself, not a copy, so \<^verbatim>\<open>dct_join.update\<close> writes the
  entries of the right relation into \<^verbatim>\<open>self\<close>; \<^verbatim>\<open>check_fk\<close> then
  fills the dictionary of the new relation.
\<close>

definition Relation_set_op :: "field_ops \<Rightarrow> nat \<Rightarrow> string option \<Rightarrow> nat option \<Rightarrow> heap
    \<Rightarrow> error + nat \<times> heap" where
  "Relation_set_op ops self operator right h =
     (case Relation_init ops (r_class (rels h self)) (to_dict_val_comp ops (rels h self)) h of
        Inl e \<Rightarrow> Inl e
      | Inr (new, h1) \<Rightarrow>
          let h2 = upd_rel new (\<lambda>n. n\<lparr>r_id_cast := r_id_cast (rels h1 self)\<rparr>) h1;
              h3 = (if op_truth operator then
                      upd_rel new (\<lambda>n. n\<lparr>r_set_operators :=
                        (r_set_operators n)\<lparr>so_left := self, so_operator := operator\<rparr>\<rparr>) h2
                    else h2);
              h4 = (case right of
                      None \<Rightarrow> h3
                    | Some b \<Rightarrow>
                        let h' = upd_rel new (\<lambda>n. n\<lparr>r_set_operators :=
                                   (r_set_operators n)\<lparr>so_right := Some b\<rparr>\<rparr>) h3
                        in upd_rel self (\<lambda>s. s\<lparr>ho_join_to :=
                             dict_update (ho_join_to s) (ho_join_to (rels h' b))\<rparr>) h');
              dct_join = ho_join_to (rels h4 self)
          in Inr (new, upd_rel new (\<lambda>n. n\<lparr>ho_join_to :=
                         check_fk self new dct_join (ho_join_to n)\<rparr>) h4))"

text \<open>
  \<^verbatim>\<open>__and__\<close>, \<^verbatim>\<open>__or__\<close>, \<^verbatim>\<open>__sub__\<close> and
  \<^verbatim>\<open>__neg__\<close>.
\<close>

definition Relation_and :: "field_ops \<Rightarrow> nat \<Rightarrow> nat \<Rightarrow> heap \<Rightarrow> error + nat \<times> heap" where
  "Relation_and ops self right h = Relation_set_op ops self (Some ''and'') (Some right) h"

definition Relation_or :: "field_ops \<Rightarrow> nat \<Rightarrow> nat \<Rightarrow> heap \<Rightarrow> error + nat \<times> heap" where
  "Relation_or ops self right h = Relation_set_op ops self (Some ''or'') (Some right) h"

definition Relation_sub :: "field_ops \<Rightarrow> nat \<Rightarrow> nat \<Rightarrow> heap \<Rightarrow> error + nat \<times> heap" where
  "Relation_sub ops self right h = Relation_set_op ops self (Some ''and not'') (Some right) h"

definition Relation_neg :: "field_ops \<Rightarrow> nat \<Rightarrow> heap \<Rightarrow> error + nat \<times> heap" where
  "Relation_neg ops self h =
     (let so = r_set_operators (rels h self)
      in case Relation_set_op ops self (so_operator so) (so_right so) h of
           Inl e \<Rightarrow> Inl e
         | Inr (new, h') \<Rightarrow>
             Inr (new, upd_rel new (\<lambda>n. n\<lparr>r_neg := \<not> r_neg (rels h' self)\<rparr>) h'))"

subsection \<open>A read-only PostgreSQL session\<close>

text \<open>
  What PostgreSQL answers to the two reading statements, for a relation whose constraint
  is matched by the rows \<open>rows\<close> (in the order the server yields them). The count is the
  number of distinct rows; being an aggregate without grouping, it is one row, on which
  a \<^verbatim>\<open>LIMIT 1\<close> changes nothing. The select skips \<^verbatim>\<open>OFFSET\<close> rows,
  keeps at most \<^verbatim>\<open>LIMIT\<close> rows and projects on the columns asked for (all of
  them when none is named). This session knows no \<^verbatim>\<open>ORDER BY\<close>, takes limits and
  offsets that are non-negative integers, and refuses every write, as a read-only
  transaction does.
\<close>

definition pg_bound :: "pyval option \<Rightarrow> error + nat option" where
  "pg_bound v =
     (case v of
        None \<Rightarrow> Inr None
      | Some (PInt n) \<Rightarrow> if n < 0 then Inl (DatabaseError ''must not be negative'')
                         else Inr (Some (nat n))
      | Some _ \<Rightarrow> Inl (DatabaseError ''syntax error''))"

definition pg_project :: "string list \<Rightarrow> row \<Rightarrow> row" where
  "pg_project cols r = (if cols = [] then r else filter (\<lambda>(k, v). k \<in> set cols) r)"

definition pg_select :: "row list \<Rightarrow> string list \<Rightarrow> pyval option \<Rightarrow> pyval option
    \<Rightarrow> pyval option \<Rightarrow> pyval option \<Rightarrow> error + row list" where
  "pg_select rows cols dist ord lim off =
     (if ord \<noteq> None then Inl (DatabaseError ''order by'')
      else
        (case (pg_bound lim, pg_bound off) of
           (Inl e, _) \<Rightarrow> Inl e
         | (_, Inl e) \<Rightarrow> Inl e
         | (Inr l, Inr off') \<Rightarrow>
             let projected = map (pg_project cols) rows;
                 res = (if dist \<noteq> None then remdups projected else projected);
                 skipped = (case off' of None \<Rightarrow> res | Some k \<Rightarrow> drop k res)
             in Inr (case l of None \<Rightarrow> skipped | Some k \<Rightarrow> take k skipped)))"

definition pg_count :: "row list \<Rightarrow> bool \<Rightarrow> row list" where
  "pg_count rows limit_one =
     (let res = [[(''count'', PInt (int (length (remdups rows))))]]
      in if limit_one then take 1 res else res)"

definition pg :: "(row list) server" where
  "pg rows st =
     (case st of
        Count_stmt i limit_one \<Rightarrow> (Inr (pg_count rows limit_one), rows)
      | Select_stmt i cols dist ord lim off \<Rightarrow> (pg_select rows cols dist ord lim off, rows)
      | _ \<Rightarrow> (Inl (DatabaseError ''read-only transaction''), rows))"

subsection \<open>Objects of the examples\<close>

text \<open>
  The class \<^verbatim>\<open>Person\<close> of the test database, two of its rows, the field
  operations of \<^verbatim>\<open>halfORM/field.py\<close> (the only ones among the sources), and a
  world in which the session above holds the rows matched.
\<close>

definition person :: rel_class where
  "person =
     \<lparr>c_name = ''Person'', c_qrn = ''actor.person'',
      c_fields = [(''id'', Field_init ''id'' ''int4''),
                  (''first_name'', Field_init ''first_name'' ''text''),
                  (''last_name'', Field_init ''last_name'' ''text'')],
      c_fkeys = []\<rparr>"

definition row_aa :: row where
  "row_aa = [(''id'', PInt 1), (''first_name'', PStr ''aa''), (''last_name'', PStr ''aa'')]"

definition row_ab :: row where
  "row_ab = [(''id'', PInt 2), (''first_name'', PStr ''ab''), (''last_name'', PStr ''ab'')]"

definition legacy_ops :: field_ops where
  "legacy_ops =
     \<lparr>op_set = (\<lambda>f v. case Field_set_value f v of Inl e \<Rightarrow> Inl e | Inr (f', l) \<Rightarrow> Inr f'),
      op_comp = f_comp\<rparr>"

definition session :: "row list \<Rightarrow> (row list) world" where
  "session rows = \<lparr>db = rows, sent = []\<rparr>"

text \<open>
  A heap of three fresh \<^verbatim>\<open>Person\<close> relations 0, 1 and 2, and the same heap
  after a foreign key (the object 7) of relation 1 was set to relation 2.
\<close>

definition heap3 :: heap where
  "heap3 =
     \<lparr>rels = (\<lambda>i. new_relation person i), next_id = 3\<rparr>"

definition heap3_joined :: heap where
  "heap3_joined = upd_rel 1 (\<lambda>r. r\<lparr>ho_join_to := [(7, 2)]\<rparr>) heap3"

section \<open>Field: assignment\<close>

lemma unpack_pair [simp]: "unpack (PTuple [a, b]) = Inr (a, b)"
  by (simp add: unpack_def)

lemma is_field_tuple [simp]: "\<not> is_field (PTuple xs)"
  by (simp add: is_field_def)

lemma set_none_is_ignored: "Field_set self obj PNone = Inr (self, None)"
  by (simp add: Field_set_def)


text \<open>
  C7, as the code has it. \<^verbatim>\<open>__set__\<close> reads a pair as (value, comparator)
  and checks the comparator against no list: with a value other than
  \<^verbatim>\<open>NULL\<close>, every comparator string is stored as given and the field is set.
  With the value \<^verbatim>\<open>NULL\<close>, a comparator other than \<^verbatim>\<open>is\<close> and
  \<^verbatim>\<open>is not\<close> fails (the assertion), and these two are stored.
\<close>

theorem set_pair_comparator:
  "(v \<noteq> PNULL \<longrightarrow>
      Field_set self obj (PTuple [v, PStr c]) =
        Inr (self\<lparr>f_relation := obj, f_value := v, f_comp := PStr c, f_is_set := True\<rparr>, None))
   \<and> (c \<noteq> ''is'' \<and> c \<noteq> ''is not'' \<longrightarrow>
      Field_set self obj (PTuple [PNULL, PStr c]) = Inl AssertionError)
   \<and> (c = ''is'' \<or> c = ''is not'' \<longrightarrow>
      Field_set self obj (PTuple [PNULL, PStr c]) =
        Inr (self\<lparr>f_relation := obj, f_value := PNULL, f_comp := PStr c, f_is_set := True\<rparr>, None))"
  by (auto simp add: Field_set_def store_value_def)

theorem set_pair_comparator_witness:
  "Field_set first_name (Some 1) (PTuple [PStr ''a%'', PStr ''ilike'']) =
     Inr (first_name\<lparr>f_relation := Some 1, f_value := PStr ''a%'', f_comp := PStr ''ilike'',
                     f_is_set := True\<rparr>, None)
   \<and> Field_set first_name (Some 1) (PTuple [PNULL, PStr ''!='']) = Inl AssertionError
   \<and> Field_set first_name (Some 1) (PTuple [PNULL, PStr ''is not'']) =
     Inr (first_name\<lparr>f_relation := Some 1, f_value := PNULL, f_comp := PStr ''is not'',
                     f_is_set := True\<rparr>, None)"
  using set_pair_comparator [of "PStr ''a%''" first_name "Some 1" "''ilike''"]
    set_pair_comparator [of PNULL first_name "Some 1" "''!=''"]
    set_pair_comparator [of PNULL first_name "Some 1" "''is not''"]
  by simp

text \<open>
  The claim as stated fails: the string \<^verbatim>\<open>foo\<close> is outside the closed set,
  and a pair holding it as comparator is accepted, whichever component it is.
\<close>

theorem set_pair_comparator_counterexample:
  "''foo'' \<notin> set spec_comparators
   \<and> Field_set first_name (Some 1) (PTuple [PStr ''x'', PStr ''foo'']) =
       Inr (first_name\<lparr>f_relation := Some 1, f_value := PStr ''x'', f_comp := PStr ''foo'',
                       f_is_set := True\<rparr>, None)
   \<and> Field_set first_name (Some 1) (PTuple [PStr ''foo'', PStr ''x'']) =
       Inr (first_name\<lparr>f_relation := Some 1, f_value := PStr ''foo'', f_comp := PStr ''x'',
                       f_is_set := True\<rparr>, None)"
  by (simp add: Field_set_def store_value_def spec_comparators_def)

section \<open>Field: rendering\<close>

lemma comp_str_sequence:
  "is_list_or_tuple (f_value self) \<Longrightarrow> f_type self = t # ts \<Longrightarrow>
   comp_str self = Inr (if t \<noteq> CHR ''_'' then ''any(%s)'' else ''%s'')"
  by (simp add: comp_str_def)

text \<open>
  C8, as the code has it. For a field holding a list or a tuple on a column that is not
  an array, the fragment is the left-hand side, the comparator and the one placeholder
  \<^verbatim>\<open>any(%s)\<close>, for every comparator; on an array column (type name starting
  with an underscore) the placeholder is the plain \<^verbatim>\<open>%s\<close>.
\<close>

theorem where_repr_sequence:
  "is_list_or_tuple (f_value self) \<and> f_type self = t # ts \<and> f_comp self = PStr c \<longrightarrow>
     where_repr self query ident =
       (if \<not> f_unaccent self then
          Inr (praf self query ident @ '' '' @ c @ '' ''
               @ (if t \<noteq> CHR ''_'' then ''any(%s)'' else ''%s''))
        else
          Inr (''unaccent('' @ praf self query ident @ '') '' @ c @ '' unaccent(''
               @ (if t \<noteq> CHR ''_'' then ''any(%s)'' else ''%s'') @ '')''))"
  by (simp add: where_repr_def comp_str_sequence)

theorem where_repr_sequence_witness:
  "where_repr content ''select'' (PInt 1) =
     Inr (praf content ''select'' (PInt 1) @ '' != any(%s)'')"
  using where_repr_sequence [of content "CHR ''t''" "''ext''" "''!=''" "''select''" "PInt 1"]
  by (simp add: content_def Field_init_def is_list_or_tuple_def)

text \<open>
  The claim as stated fails: with the comparator \<^verbatim>\<open>!=\<close>, which is not
  \<^verbatim>\<open>=\<close>, the fragment for a list on a text column still ends in
  \<^verbatim>\<open>any(%s)\<close>, not in \<^verbatim>\<open>in (%s)\<close>.
\<close>

theorem where_repr_sequence_counterexample:
  "where_repr content ''select'' (PInt 1) = Inr ''r1.content != any(%s)''"
  by (simp add: where_repr_def comp_str_def praf_def content_def Field_init_def
      is_list_or_tuple_def str_int_def str_nat.simps digit_def)

section \<open>Relation: counting and get\<close>

lemma rows_distinct: "row_aa \<noteq> row_ab"
  by (simp add: row_aa_def row_ab_def)

lemmas pg_defs = pg_def pg_count_def pg_select_def pg_bound_def pg_project_def session_def
  execute_def fetchone_count_def

text \<open>
  On the read-only session, \<^verbatim>\<open>len\<close> is the number of distinct matching rows
  and \<^verbatim>\<open>_ho_is_empty\<close> tells whether that number differs from 1.
\<close>

lemma len_pg: "fst (Relation_len pg i w) = Inr (int (length (remdups (db w))))"
  by (simp add: Relation_len_def pg_defs)

lemma is_empty_pg: "fst (ho_is_empty pg i w) = Inr (length (remdups (db w)) \<noteq> 1)"
  by (simp add: ho_is_empty_def pg_defs)

text \<open>
  C1. \<^verbatim>\<open>_ho_is_empty\<close> tests \<^verbatim>\<open>count != 1\<close>, and the
  \<^verbatim>\<open>limit 1\<close> of its statement does not cap the count: for a relation matched
  by two rows, \<^verbatim>\<open>len\<close> is 2 and \<^verbatim>\<open>_ho_is_empty\<close> returns
  \<^verbatim>\<open>True\<close>.
\<close>

theorem is_empty_two_rows:
  "fst (Relation_len pg 0 (session [row_aa, row_ab])) = Inr 2
   \<and> fst (ho_is_empty pg 0 (session [row_aa, row_ab])) = Inr True"
  by (simp add: Relation_len_def ho_is_empty_def pg_defs rows_distinct)

text \<open>
  \<^verbatim>\<open>_ho_get\<close> raises \<^verbatim>\<open>ExpectedOneError\<close> with the count whenever
  \<^verbatim>\<open>len\<close> returns a count other than 1, and the message holds the count.
\<close>

lemma get_expected_one:
  "Relation_len srv i w = (Inr n, w') \<Longrightarrow> n \<noteq> 1 \<Longrightarrow>
   ho_get ops srv i args h w = (Inl (ExpectedOneError i n), h, w')"
  by (simp add: ho_get_def)

lemma expected_one_message_count:
  "ExpectedOneError_message n rel = ''Expected 1, got '' @ str_int n @ rest
   \<longleftrightarrow> rest = '' tuple'' @ (if n = 0 then [] else ''s'') @ '':'' @ [CHR 0x0A] @ rel"
  by (auto simp add: ExpectedOneError_message_def)

text \<open>
  With a count of 1 and a select that yields a row, the result is a new relation of the
  same class, marked singleton, built by \<^verbatim>\<open>__init__\<close> from that row.
\<close>

lemma get_one:
  "Relation_len srv i w = (Inr 1, w1) \<Longrightarrow>
   ho_select srv i args (upd_rel i (\<lambda>r. r\<lparr>ho_is_singleton := True\<rparr>) h) w1 = (Inr (row # rows), w2) \<Longrightarrow>
   Relation_init ops (r_class (rels h i)) row (upd_rel i (\<lambda>r. r\<lparr>ho_is_singleton := True\<rparr>) h)
     = Inr (j, h2) \<Longrightarrow>
   ho_get ops srv i args h w = (Inr j, upd_rel j (\<lambda>r. r\<lparr>ho_is_singleton := True\<rparr>) h2, w2)"
  by (simp add: ho_get_def upd_rel_def)

text \<open>
  C2. The select of \<^verbatim>\<open>_ho_get\<close> carries the offset of the relation, the
  count does not. For \<^verbatim>\<open>Person()._ho_offset(1)\<close> on a table of one row the
  count is 1, the select yields no row, and \<^verbatim>\<open>next\<close> raises
  \<^verbatim>\<open>StopIteration\<close>: no relation is returned, and the exception is not
  \<^verbatim>\<open>ExpectedOneError\<close>. Without the offset the same call returns the new
  relation 3.
\<close>

theorem get_with_offset:
  "fst (Relation_len pg 0 (session [row_aa])) = Inr 1
   \<and> fst (ho_get legacy_ops pg 0 [] (snd (ho_offset (PInt 1) 0 heap3)) (session [row_aa]))
       = Inl StopIteration
   \<and> fst (ho_get legacy_ops pg 0 [] heap3 (session [row_aa])) = Inr 3"
  by (simp add: ho_get_def Relation_len_def ho_select_def select_stmt_def ho_offset_def
      upd_rel_def heap3_def new_relation_def pg_defs Relation_init_def person_def row_aa_def
      legacy_ops_def Field_set_value_def Field_set_def Field_init_def unpack_def is_field_def
      store_value_def)

section \<open>Relation: the limit modifier\<close>

text \<open>
  C10. \<^verbatim>\<open>_ho_limit\<close> returns its receiver; a true argument is stored under
  \<^verbatim>\<open>limit\<close>, a false one leaves no \<^verbatim>\<open>limit\<close> entry, and nothing
  else changes. An integer is true exactly when it is not 0, so the limit 0 removes
  the entry and any other integer \<open>n\<close> is stored.
\<close>

theorem limit_modifier:
  "ho_limit lim i h =
     (i, upd_rel i (\<lambda>r. r\<lparr>r_select_params :=
            (r_select_params r)(''limit'' := (if py_bool lim then Some lim else None))\<rparr>) h)
   \<and> py_bool (PInt n) = (n \<noteq> 0)
   \<and> fst (ho_limit (PInt n) i h) = i
   \<and> r_select_params (rels (snd (ho_limit (PInt n) i h)) i) =
       (r_select_params (rels h i))(''limit'' := (if n = 0 then None else Some (PInt n)))"
proof -
  have unset: "sp(''limit'' := None) = sp" if "''limit'' \<notin> dom sp" for sp :: "string \<rightharpoonup> pyval"
    using that by (auto simp add: fun_eq_iff dom_def)
  have general: "ho_limit v i h =
     (i, upd_rel i (\<lambda>r. r\<lparr>r_select_params :=
            (r_select_params r)(''limit'' := (if py_bool v then Some v else None))\<rparr>) h)" for v
    by (cases "''limit'' \<in> dom (r_select_params (rels h i))")
       (simp_all add: ho_limit_def upd_rel_def Let_def unset)
  show ?thesis
    by (simp add: general upd_rel_def)
qed

section \<open>Relation: insert\<close>

text \<open>
  C9. When the execution of the insert leaves no row in the cursor,
  \<^verbatim>\<open>_ho_insert\<close> returns the empty mapping; when it leaves rows, it returns
  the first of them.
\<close>

theorem insert_result:
  "(execute srv (insert_stmt (rels h i) args) w = (Inr [], w') \<longrightarrow>
      ho_insert srv i args h w = (Inr [], w'))
   \<and> (execute srv (insert_stmt (rels h i) args) w = (Inr (r # rs), w') \<longrightarrow>
      ho_insert srv i args h w = (Inr r, w'))"
  by (simp add: ho_insert_def)

theorem insert_result_witness:
  "ho_insert (\<lambda>d st. (Inr [], d)) 0 [] heap3 (session []) =
     (Inr [], \<lparr>db = [], sent = [Insert_stmt ''actor.person'' [] [] [''*''] []]\<rparr>)
   \<and> ho_insert (\<lambda>d st. (Inr [row_aa, row_ab], d)) 0 [] heap3 (session []) =
     (Inr row_aa, \<lparr>db = [], sent = [Insert_stmt ''actor.person'' [] [] [''*''] []]\<rparr>)"
proof -
  have st: "insert_stmt (rels heap3 0) [] = Insert_stmt ''actor.person'' [] [] [''*''] []"
    by (simp add: insert_stmt_def Relation_what_def get_set_fields_def heap3_def
        new_relation_def person_def Field_init_def)
  have e1: "execute (\<lambda>d st. (Inr [], d)) (insert_stmt (rels heap3 0) []) (session [])
      = (Inr [], \<lparr>db = [], sent = [Insert_stmt ''actor.person'' [] [] [''*''] []]\<rparr>)"
    by (simp add: st execute_def session_def)
  have e2: "execute (\<lambda>d st. (Inr [row_aa, row_ab], d)) (insert_stmt (rels heap3 0) []) (session [])
      = (Inr (row_aa # [row_ab]), \<lparr>db = [], sent = [Insert_stmt ''actor.person'' [] [] [''*''] []]\<rparr>)"
    by (simp add: st execute_def session_def)
  from insert_result [of "\<lambda>d st. (Inr [], d)" heap3 0 "[]" "session []"] e1
  have "ho_insert (\<lambda>d st. (Inr [], d)) 0 [] heap3 (session []) =
     (Inr [], \<lparr>db = [], sent = [Insert_stmt ''actor.person'' [] [] [''*''] []]\<rparr>)"
    by blast
  moreover from insert_result [of "\<lambda>d st. (Inr [row_aa, row_ab], d)" heap3 0 "[]" "session []"] e2
  have "ho_insert (\<lambda>d st. (Inr [row_aa, row_ab], d)) 0 [] heap3 (session []) =
     (Inr row_aa, \<lparr>db = [], sent = [Insert_stmt ''actor.person'' [] [] [''*''] []]\<rparr>)"
    by blast
  ultimately show ?thesis by simp
qed

section \<open>Relation: the safety barrier of update and delete\<close>

lemma or_results_all_false:
  "list_all (\<lambda>r. r = Inr False) rs \<Longrightarrow> or_results rs acc = Inr acc"
  by (induction rs arbitrary: acc) auto

lemma or_results_error: "or_results rs acc = Inl e \<Longrightarrow> Inl e \<in> set rs"
  by (induction rs acc rule: or_results.induct) auto

lemma or_results_value: "or_results rs acc = Inr b \<Longrightarrow> b = (acc \<or> Inr True \<in> set rs)"
  by (induction rs acc rule: or_results.induct) auto

text \<open>The only exception of \<^verbatim>\<open>_ho_is_set\<close> is the exhausted recursion.\<close>

lemma ho_is_set_error: "ho_is_set depth h i = Inl e \<Longrightarrow> e = RecursionError"
proof (induction depth arbitrary: i)
  case 0
  then show ?case by simp
next
  case (Suc depth)
  show ?case
  proof (cases "or_results (map (\<lambda>(fk, j). ho_is_set depth h j) (ho_join_to (rels h i))) False")
    case (Inl e')
    with Suc.prems have same: "e' = e"
      by (simp add: Let_def)
    from or_results_error [OF Inl] obtain fk j where "ho_is_set depth h j = Inl e'"
      by auto
    with Suc.IH same show ?thesis
      by blast
  next
    case (Inr b)
    with Suc.prems show ?thesis
      by (simp add: Let_def)
  qed
qed

text \<open>
  A relation with no set field, no operator, no negation, and whose joined relations
  are all found not set, is found not set.
\<close>

lemma is_set_unconstrained:
  assumes "get_set_fields (rels h i) = []"
    and "\<not> op_truth (so_operator (r_set_operators (rels h i)))"
    and "\<not> r_neg (rels h i)"
    and "list_all (\<lambda>(fk, j). ho_is_set depth h j = Inr False) (ho_join_to (rels h i))"
  shows "ho_is_set (Suc depth) h i = Inr False"
proof -
  from assms(4)
  have "list_all (\<lambda>r. r = Inr False)
          (map (\<lambda>(fk, j). ho_is_set depth h j) (ho_join_to (rels h i)))"
    by (induction "ho_join_to (rels h i)") (auto simp add: list_all_iff)
  then have "or_results (map (\<lambda>(fk, j). ho_is_set depth h j) (ho_join_to (rels h i))) False
      = Inr False"
    by (rule or_results_all_false)
  with assms(1-3) show ?thesis
    by (simp add: Let_def)
qed

text \<open>
  A relation with a set field, an operator, a negation or a joined relation found set
  is found set, unless the recursion is exhausted on the way.
\<close>

lemma is_set_constrained:
  assumes "get_set_fields (rels h i) \<noteq> []
      \<or> op_truth (so_operator (r_set_operators (rels h i)))
      \<or> r_neg (rels h i)
      \<or> list_ex (\<lambda>(fk, j). ho_is_set depth h j = Inr True) (ho_join_to (rels h i))"
  shows "ho_is_set (Suc depth) h i = Inr True \<or> ho_is_set (Suc depth) h i = Inl RecursionError"
proof (cases "or_results (map (\<lambda>(fk, j). ho_is_set depth h j) (ho_join_to (rels h i))) False")
  case (Inl e)
  from or_results_error [OF Inl] obtain fk j where "ho_is_set depth h j = Inl e"
    by auto
  then have "e = RecursionError"
    by (rule ho_is_set_error)
  with Inl show ?thesis
    by (simp add: Let_def)
next
  case (Inr b)
  have "list_ex (\<lambda>(fk, j). ho_is_set depth h j = Inr True) (ho_join_to (rels h i)) \<Longrightarrow> b"
  proof -
    assume "list_ex (\<lambda>(fk, j). ho_is_set depth h j = Inr True) (ho_join_to (rels h i))"
    then have "Inr True \<in> set (map (\<lambda>(fk, j). ho_is_set depth h j) (ho_join_to (rels h i)))"
      by (force simp add: list_ex_iff)
    with or_results_value [OF Inr] show b
      by simp
  qed
  with assms Inr show ?thesis
    by (auto simp add: Let_def)
qed

text \<open>
  C3. Take a relation with no set field, no operator and no negation, whose foreign keys
  are bound to no relation or to relations that are themselves found not set. Then
  \<^verbatim>\<open>_ho_update\<close> raises its refusal unless \<^verbatim>\<open>update_all\<close> is true,
  and \<^verbatim>\<open>_ho_delete\<close> raises its refusal unless \<^verbatim>\<open>delete_all\<close> is
  true; with the flag, each goes on to the rest of the method. When the relation is
  constrained (a set field, an operator, a negation, or a joined relation found set), no
  refusal is raised whatever the flag: the method goes on, the one other outcome being
  the \<^verbatim>\<open>RecursionError\<close> of \<^verbatim>\<open>_ho_is_set\<close> on a join graph deeper
  than the recursion allowed.
\<close>

theorem safety_barrier:
  "(get_set_fields (rels h i) = []
      \<and> \<not> op_truth (so_operator (r_set_operators (rels h i)))
      \<and> \<not> r_neg (rels h i)
      \<and> list_all (\<lambda>(fk, j). ho_is_set depth h j = Inr False) (ho_join_to (rels h i))
    \<longrightarrow>
      ho_update ops srv (Suc depth) i args update_all kw h w =
        (if update_all then update_body ops srv i args kw h w
         else (Inl (RuntimeError (update_refusal (c_name (r_class (rels h i))))), h, w))
      \<and> ho_delete srv (Suc depth) i args delete_all h w =
        (if delete_all then delete_body srv i args h w
         else (Inl (RuntimeError (delete_refusal (c_name (r_class (rels h i))))), w)))
   \<and> (get_set_fields (rels h i) \<noteq> []
      \<or> op_truth (so_operator (r_set_operators (rels h i)))
      \<or> r_neg (rels h i)
      \<or> list_ex (\<lambda>(fk, j). ho_is_set depth h j = Inr True) (ho_join_to (rels h i))
    \<longrightarrow>
      (ho_update ops srv (Suc depth) i args update_all kw h w = update_body ops srv i args kw h w
       \<or> ho_update ops srv (Suc depth) i args update_all kw h w = (Inl RecursionError, h, w))
      \<and> (ho_delete srv (Suc depth) i args delete_all h w = delete_body srv i args h w
         \<or> ho_delete srv (Suc depth) i args delete_all h w = (Inl RecursionError, w)))"
proof (intro conjI impI)
  assume u: "get_set_fields (rels h i) = []
      \<and> \<not> op_truth (so_operator (r_set_operators (rels h i)))
      \<and> \<not> r_neg (rels h i)
      \<and> list_all (\<lambda>(fk, j). ho_is_set depth h j = Inr False) (ho_join_to (rels h i))"
  then have not_set: "ho_is_set (Suc depth) h i = Inr False"
    by (intro is_set_unconstrained) simp_all
  show "ho_update ops srv (Suc depth) i args update_all kw h w =
        (if update_all then update_body ops srv i args kw h w
         else (Inl (RuntimeError (update_refusal (c_name (r_class (rels h i))))), h, w))"
    unfolding ho_update_def not_set by simp
  show "ho_delete srv (Suc depth) i args delete_all h w =
        (if delete_all then delete_body srv i args h w
         else (Inl (RuntimeError (delete_refusal (c_name (r_class (rels h i))))), w))"
    unfolding ho_delete_def not_set by simp
next
  assume c: "get_set_fields (rels h i) \<noteq> []
      \<or> op_truth (so_operator (r_set_operators (rels h i)))
      \<or> r_neg (rels h i)
      \<or> list_ex (\<lambda>(fk, j). ho_is_set depth h j = Inr True) (ho_join_to (rels h i))"
  from is_set_constrained [OF c]
  show "ho_update ops srv (Suc depth) i args update_all kw h w = update_body ops srv i args kw h w
       \<or> ho_update ops srv (Suc depth) i args update_all kw h w = (Inl RecursionError, h, w)"
    unfolding ho_update_def by (elim disjE) simp_all
  from is_set_constrained [OF c]
  show "ho_delete srv (Suc depth) i args delete_all h w = delete_body srv i args h w
         \<or> ho_delete srv (Suc depth) i args delete_all h w = (Inl RecursionError, w)"
    unfolding ho_delete_def by (elim disjE) simp_all
qed

text \<open>
  The witness: relation 1 of \<open>heap3_joined\<close> has a foreign key bound to the
  unconstrained relation 2 and is refused an update and a delete without the flag;
  once its field \<^verbatim>\<open>first_name\<close> is set, the delete goes on without the flag.
\<close>

definition heap3_set :: heap where
  "heap3_set =
     upd_rel 1 (\<lambda>r. r\<lparr>ho_fields := AList.update ''first_name'' jojo (ho_fields r)\<rparr>) heap3_joined"

theorem safety_barrier_witness:
  "ho_update legacy_ops pg (Suc (Suc 0)) 1 [] False [(''last_name'', PStr ''x'')] heap3_joined
       (session [row_aa])
     = (Inl (RuntimeError (update_refusal ''Person'')), heap3_joined, session [row_aa])
   \<and> ho_delete pg (Suc (Suc 0)) 1 [] False heap3_joined (session [row_aa])
     = (Inl (RuntimeError (delete_refusal ''Person'')), session [row_aa])
   \<and> ho_delete pg (Suc (Suc 0)) 1 [] True heap3_joined (session [row_aa])
     = delete_body pg 1 [] heap3_joined (session [row_aa])
   \<and> (ho_delete pg (Suc (Suc 0)) 1 [] False heap3_set (session [row_aa])
       = delete_body pg 1 [] heap3_set (session [row_aa])
      \<or> ho_delete pg (Suc (Suc 0)) 1 [] False heap3_set (session [row_aa])
       = (Inl RecursionError, session [row_aa]))"
proof -
  have unconstrained: "get_set_fields (rels heap3_joined 1) = []
      \<and> \<not> op_truth (so_operator (r_set_operators (rels heap3_joined 1)))
      \<and> \<not> r_neg (rels heap3_joined 1)
      \<and> list_all (\<lambda>(fk, j). ho_is_set (Suc 0) heap3_joined j = Inr False)
          (ho_join_to (rels heap3_joined 1))"
    by (simp add: heap3_joined_def heap3_def upd_rel_def new_relation_def person_def
        Field_init_def get_set_fields_def op_truth_def)
  have constrained: "get_set_fields (rels heap3_set 1) \<noteq> []"
    by (simp add: heap3_set_def heap3_joined_def heap3_def upd_rel_def new_relation_def
        person_def Field_init_def get_set_fields_def jojo_def first_name_def)
  have name: "c_name (r_class (rels heap3_joined 1)) = ''Person''"
    by (simp add: heap3_joined_def heap3_def upd_rel_def new_relation_def person_def)
  from safety_barrier [of heap3_joined 1 "Suc 0" legacy_ops pg "[]" False
      "[(''last_name'', PStr ''x'')]" "session [row_aa]" False] unconstrained name
  have refused: "ho_update legacy_ops pg (Suc (Suc 0)) 1 [] False [(''last_name'', PStr ''x'')]
        heap3_joined (session [row_aa])
      = (Inl (RuntimeError (update_refusal ''Person'')), heap3_joined, session [row_aa])
    \<and> ho_delete pg (Suc (Suc 0)) 1 [] False heap3_joined (session [row_aa])
      = (Inl (RuntimeError (delete_refusal ''Person'')), session [row_aa])"
    by simp
  from safety_barrier [of heap3_joined 1 "Suc 0" legacy_ops pg "[]" False
      "[(''last_name'', PStr ''x'')]" "session [row_aa]" True] unconstrained
  have allowed: "ho_delete pg (Suc (Suc 0)) 1 [] True heap3_joined (session [row_aa])
      = delete_body pg 1 [] heap3_joined (session [row_aa])"
    by simp
  from safety_barrier [of heap3_set 1 "Suc 0" legacy_ops pg "[]" False
      "[(''last_name'', PStr ''x'')]" "session [row_aa]" False] constrained
  have passes: "ho_delete pg (Suc (Suc 0)) 1 [] False heap3_set (session [row_aa])
       = delete_body pg 1 [] heap3_set (session [row_aa])
      \<or> ho_delete pg (Suc (Suc 0)) 1 [] False heap3_set (session [row_aa])
       = (Inl RecursionError, session [row_aa])"
    by blast
  from refused allowed passes show ?thesis
    by blast
qed

section \<open>Relation: update drops the None values\<close>








section \<open>Relation: set operators and their operands\<close>

text \<open>
  C5. \<^verbatim>\<open>__set__op__\<close> updates the \<^verbatim>\<open>_ho_join_to\<close> dictionary of its
  left operand in place. In \<open>heap3_joined\<close> relation 0 is joined to nothing and
  relation 1 has a foreign key bound to relation 2; after \<^verbatim>\<open>r0 & r1\<close> the new
  relation is 3 and relation 0, the left operand, has the entry of relation 1 in its own
  \<^verbatim>\<open>_ho_join_to\<close>. This holds for every implementation of the field methods.
\<close>

theorem and_mutates_left_operand:
  "ho_join_to (rels heap3_joined 0) = []
   \<and> (case Relation_and ops 0 1 heap3_joined of
        Inl e \<Rightarrow> False
      | Inr (new, h') \<Rightarrow>
          new = 3 \<and> ho_join_to (rels h' 0) = [(7, 2)] \<and> ho_join_to (rels h' 3) = [(7, 2)]
          \<and> rels h' 1 = rels heap3_joined 1)"
  by (simp add: Relation_and_def Relation_set_op_def Relation_init_def to_dict_val_comp_def
      get_set_fields_def heap3_joined_def heap3_def upd_rel_def new_relation_def person_def
      Field_init_def op_truth_def dict_update_def check_fk_def)

text \<open>
  In general: with a right operand, the left operand leaves \<^verbatim>\<open>__set__op__\<close>
  with the entries of the right operand written into its \<^verbatim>\<open>_ho_join_to\<close>,
  and is otherwise as before; a right operand other than the left one is not changed.
\<close>

lemma set_op_operands:
  assumes "Relation_set_op ops self operator (Some b) h = Inr (new, h')"
    and "self < next_id h" and "b < next_id h"
  shows "new = next_id h"
    and "rels h' self = (rels h self)\<lparr>ho_join_to :=
            dict_update (ho_join_to (rels h self)) (ho_join_to (rels h b))\<rparr>"
    and "b \<noteq> self \<Longrightarrow> rels h' b = rels h b"
  using assms
  by (auto simp add: Relation_set_op_def Relation_init_def upd_rel_def Let_def
      split: sum.splits if_splits)

end
